theory Spec2Isabelle
  imports Complex_Main
begin

section \<open>Values and exceptions\<close>

text \<open>
  The Python values that \<^verbatim>\<open>app.py\<close> builds and hands to \<^verbatim>\<open>json.dump\<close> and
  \<^verbatim>\<open>csv.writer\<close>. A \<^verbatim>\<open>dict\<close> is an association list in insertion order (the order
  \<^verbatim>\<open>json.dump\<close> emits the keys in); the dict literals of the source have distinct
  keys. Python floats are idealised as reals: the source copies them and divides once.
\<close>

datatype pyval =
    PNone
  | PInt int
  | PFloat real
  | PStr string
  | PList "pyval list"
  | PDict "(string \<times> pyval) list"

text \<open>
  The exceptions a run can meet: \<^verbatim>\<open>landmark['landmark_id']\<close> on a dict without that key,
  the detector raising inside \<^verbatim>\<open>pose.process\<close>, and the operating system refusing
  \<^verbatim>\<open>os.makedirs\<close>.
\<close>

datatype exn = KeyError string | DetectionError string | OSError string

text \<open>\<^verbatim>\<open>str(e)\<close>: a \<^verbatim>\<open>KeyError\<close> prints the \<^verbatim>\<open>repr\<close> of its key, in single quotes.\<close>

fun str_of_exn :: "exn \<Rightarrow> string" where
  "str_of_exn (KeyError k) = [CHR 0x27] @ k @ [CHR 0x27]"
| "str_of_exn (DetectionError m) = m"
| "str_of_exn (OSError m) = m"

type_synonym landmark = "(string \<times> pyval) list"
type_synonym frame_landmarks = "landmark list"
type_synonym series = "frame_landmarks list"

section \<open>The external collaborators\<close>

text \<open>
  A decoded frame (\<^verbatim>\<open>frame.shape\<close> is \<^verbatim>\<open>(height, width, channels)\<close>), and one entry of the
  detector's \<^verbatim>\<open>results.pose_landmarks.landmark\<close> sequence.
\<close>

record image =
  img_height :: nat
  img_width :: nat
  img_data :: "nat list"

record raw_landmark =
  lm_x :: real
  lm_y :: real
  lm_z :: real
  lm_visibility :: real

text \<open>
  What \<^verbatim>\<open>pose.process\<close> does on one frame of this run: it raises, it finds nobody
  (\<^verbatim>\<open>results.pose_landmarks\<close> is \<^verbatim>\<open>None\<close>), or it returns the joints.
\<close>

datatype detection = Raises string | NoPose | PoseLandmarks "raw_landmark list"

text \<open>
  One call of \<^verbatim>\<open>cap.read()\<close>: \<^verbatim>\<open>success\<close> is false, or a frame comes back, paired with
  what the detector will answer on it. A capture is a finite list of reads; reading past
  its end fails, as at the end of a file.
\<close>

datatype read = ReadFail | ReadOk image detection

text \<open>\<^verbatim>\<open>annotated_frame\<close>: the copy of the frame, and the landmarks drawn on it, if any.\<close>

record annotated =
  base_frame :: image
  overlay :: "raw_landmark list option"

datatype content =
    JsonFile pyval
  | CsvFile "pyval list list"
  | VideoFile real nat nat "annotated list"

text \<open>
  The filesystem: the directories made so far, the files with what was written to them,
  and the directory names \<^verbatim>\<open>os.makedirs\<close> raises on (permission denied, a regular file
  in the way, the empty name).
\<close>

record filesystem =
  dirs :: "string list"
  files :: "(string \<times> content) list"
  blocked :: "string list"

text \<open>
  The two resources \<^verbatim>\<open>analyze_video\<close> acquires: the decoder handle of an opened
  \<^verbatim>\<open>cv2.VideoCapture\<close> and the \<^verbatim>\<open>mp_pose.Pose\<close> instance.
\<close>

record resources =
  cap_held :: bool
  pose_held :: bool

text \<open>
  The world of one request: the containers \<^verbatim>\<open>cv2.VideoCapture\<close> can open, by path, each
  with its \<^verbatim>\<open>CAP_PROP_FPS\<close> and its reads; the filesystem; and the two readings of
  \<^verbatim>\<open>datetime.now().strftime("%Y%m%d_%H%M%S")\<close>, one in each save function.
\<close>

record world =
  videos :: "(string \<times> real \<times> read list) list"
  disk :: filesystem
  now_landmarks :: string
  now_video :: string

section \<open>Paths\<close>

text \<open>\<^verbatim>\<open>os.path.basename\<close>, \<^verbatim>\<open>os.path.splitext(...)[0]\<close> and \<^verbatim>\<open>os.path.join\<close> on POSIX.\<close>

definition basename :: "string \<Rightarrow> string" where
  "basename p = rev (takeWhile (\<lambda>c. c \<noteq> CHR ''/'') (rev p))"

definition splitext_root :: "string \<Rightarrow> string" where
  "splitext_root p =
     (let b = basename p;
          ext = takeWhile (\<lambda>c. c \<noteq> CHR ''.'') (rev b);
          stem = take (length b - length ext - 1) b
      in if CHR ''.'' \<in> set b \<and> list_ex (\<lambda>c. c \<noteq> CHR ''.'') stem
         then take (length p - length ext - 1) p
         else p)"

definition path_join :: "string \<Rightarrow> string \<Rightarrow> string" where
  "path_join a b =
     (if take 1 b = ''/'' then b
      else if a = [] \<or> last a = CHR ''/'' then a @ b
      else a @ ''/'' @ b)"

definition makedirs :: "string \<Rightarrow> filesystem \<Rightarrow> exn + filesystem" where
  "makedirs d fs =
     (if d \<in> set (blocked fs) then Inl (OSError d)
      else Inr (fs\<lparr>dirs := List.insert d (dirs fs)\<rparr>))"

text \<open>\<^verbatim>\<open>open(path, 'w')\<close> truncates: what was at the path before is gone.\<close>

definition write_file :: "string \<Rightarrow> content \<Rightarrow> filesystem \<Rightarrow> filesystem" where
  "write_file path c fs =
     fs\<lparr>files := (path, c) # filter (\<lambda>entry. fst entry \<noteq> path) (files fs)\<rparr>"

section \<open>analyze_video\<close>

text \<open>The dict appended for one landmark (lines 79 to 85).\<close>

definition landmark_dict :: "nat \<Rightarrow> raw_landmark \<Rightarrow> landmark" where
  "landmark_dict landmark_id l =
     [(''id'', PInt (int landmark_id)),
      (''x'', PFloat (lm_x l)),
      (''y'', PFloat (lm_y l)),
      (''z'', PFloat (lm_z l)),
      (''visibility'', PFloat (lm_visibility l))]"

text \<open>\<^verbatim>\<open>current_frame_landmarks\<close> for a detector result that did not raise.\<close>

fun current_frame_landmarks :: "detection \<Rightarrow> frame_landmarks" where
  "current_frame_landmarks (PoseLandmarks ls) =
     map (\<lambda>(landmark_id, l). landmark_dict landmark_id l) (enumerate 0 ls)"
| "current_frame_landmarks _ = []"

fun annotated_frame :: "image \<Rightarrow> detection \<Rightarrow> annotated" where
  "annotated_frame frame (PoseLandmarks ls) = \<lparr>base_frame = frame, overlay = Some ls\<rparr>"
| "annotated_frame frame _ = \<lparr>base_frame = frame, overlay = None\<rparr>"

text \<open>
  The \<^verbatim>\<open>while cap.isOpened()\<close> loop, by recursion on the reads still to come. The capture
  stays opened until \<^verbatim>\<open>cap.release()\<close>, so the loop ends only at the \<^verbatim>\<open>break\<close> or at an
  exception.
\<close>

fun extract_loop ::
  "read list \<Rightarrow> series \<Rightarrow> annotated list \<Rightarrow> exn + (series \<times> annotated list)" where
  "extract_loop [] all_frames_data processed_frames =
     Inr (all_frames_data, processed_frames)"
| "extract_loop (ReadFail # rest) all_frames_data processed_frames =
     Inr (all_frames_data, processed_frames)"
| "extract_loop (ReadOk frame (Raises m) # rest) all_frames_data processed_frames =
     Inl (DetectionError m)"
| "extract_loop (ReadOk frame results # rest) all_frames_data processed_frames =
     extract_loop rest
       (all_frames_data @ [current_frame_landmarks results])
       (processed_frames @ [annotated_frame frame results])"

text \<open>
  \<^verbatim>\<open>analyze_video\<close> returns the exception or the tuple, and the resources as they are when
  control leaves the function. \<^verbatim>\<open>None\<close> stands for the tuple \<^verbatim>\<open>(None, None, None)\<close>.
\<close>

definition analyze_video ::
  "world \<Rightarrow> string \<Rightarrow> string \<Rightarrow>
   (exn + (series \<times> annotated list \<times> real) option) \<times> resources" where
  "analyze_video w video_path output_format =
     (let created = \<lparr>cap_held = False, pose_held = True\<rparr>
      in case map_of (videos w) video_path of
           None \<Rightarrow> (Inr None, created)
         | Some (fps, reads) \<Rightarrow>
             (let opened = created\<lparr>cap_held := True\<rparr>
              in case extract_loop reads [] [] of
                   Inl e \<Rightarrow> (Inl e, opened)
                 | Inr (all_frames_data, processed_frames) \<Rightarrow>
                     (Inr (Some (all_frames_data, processed_frames, fps)),
                      opened\<lparr>cap_held := False, pose_held := False\<rparr>)))"

text \<open>The frames the loop reads: those before the first failed read.\<close>

fun frames_read :: "read list \<Rightarrow> (image \<times> detection) list" where
  "frames_read [] = []"
| "frames_read (ReadFail # rest) = []"
| "frames_read (ReadOk frame results # rest) = (frame, results) # frames_read rest"

fun is_raise :: "detection \<Rightarrow> bool" where
  "is_raise (Raises m) = True"
| "is_raise _ = False"

section \<open>save_landmarks_data\<close>

definition csv_header :: "pyval list" where
  "csv_header =
     [PStr ''frame_index'', PStr ''landmark_id'', PStr ''x'', PStr ''y'', PStr ''z'',
      PStr ''visibility'']"

definition csv_sentinel_row :: "nat \<Rightarrow> pyval list" where
  "csv_sentinel_row frame_idx =
     [PInt (int frame_idx), PStr ''N/A'', PStr ''N/A'', PStr ''N/A'', PStr ''N/A'',
      PStr ''N/A'']"

text \<open>
  The list built for \<^verbatim>\<open>writerow\<close> (lines 146 to 153); its elements are evaluated left to
  right, so the first missing key is the one the \<^verbatim>\<open>KeyError\<close> names.
\<close>

definition csv_landmark_row :: "nat \<Rightarrow> landmark \<Rightarrow> exn + pyval list" where
  "csv_landmark_row frame_idx lm =
     (case map_of lm ''landmark_id'' of
        None \<Rightarrow> Inl (KeyError ''landmark_id'')
      | Some i \<Rightarrow>
     (case map_of lm ''x'' of
        None \<Rightarrow> Inl (KeyError ''x'')
      | Some x \<Rightarrow>
     (case map_of lm ''y'' of
        None \<Rightarrow> Inl (KeyError ''y'')
      | Some y \<Rightarrow>
     (case map_of lm ''z'' of
        None \<Rightarrow> Inl (KeyError ''z'')
      | Some z \<Rightarrow>
          Inr [PInt (int frame_idx), i, x, y, z,
               (case map_of lm ''visibility'' of None \<Rightarrow> PStr ''N/A'' | Some v \<Rightarrow> v)]))))"

text \<open>The inner and the outer \<^verbatim>\<open>for\<close> loop, with the rows written to the file so far.\<close>

fun csv_write_landmarks ::
  "nat \<Rightarrow> landmark list \<Rightarrow> pyval list list \<Rightarrow> exn option \<times> pyval list list" where
  "csv_write_landmarks frame_idx [] rows = (None, rows)"
| "csv_write_landmarks frame_idx (lm # rest) rows =
     (case csv_landmark_row frame_idx lm of
        Inl e \<Rightarrow> (Some e, rows)
      | Inr row \<Rightarrow> csv_write_landmarks frame_idx rest (rows @ [row]))"

fun csv_write_frames ::
  "(nat \<times> frame_landmarks) list \<Rightarrow> pyval list list \<Rightarrow> exn option \<times> pyval list list" where
  "csv_write_frames [] rows = (None, rows)"
| "csv_write_frames ((frame_idx, frame_landmarks) # rest) rows =
     (if frame_landmarks \<noteq> [] then
        (case csv_write_landmarks frame_idx frame_landmarks rows of
           (Some e, rows') \<Rightarrow> (Some e, rows')
         | (None, rows') \<Rightarrow> csv_write_frames rest rows')
      else csv_write_frames rest (rows @ [csv_sentinel_row frame_idx]))"

definition csv_write :: "series \<Rightarrow> exn option \<times> pyval list list" where
  "csv_write all_frames_data =
     (if all_frames_data = [] then (None, [csv_header])
      else csv_write_frames (enumerate 0 all_frames_data) [csv_header])"

text \<open>\<^verbatim>\<open>formatted_data\<close> (lines 120 to 129).\<close>

definition json_frame :: "real \<Rightarrow> nat \<times> frame_landmarks \<Rightarrow> pyval" where
  "json_frame fps entry =
     PDict [(''timestamp'',
               if fps > 0 then PFloat (real (fst entry) / fps) else PInt 0),
            (''poseLandmarks'', PList (map PDict (snd entry)))]"

definition formatted_data :: "real \<Rightarrow> series \<Rightarrow> pyval" where
  "formatted_data fps all_frames_data =
     PDict [(''fps'', PFloat fps),
            (''frames'', PList (map (json_frame fps) (enumerate 0 all_frames_data)))]"

definition landmarks_file_name :: "string \<Rightarrow> string \<Rightarrow> string \<Rightarrow> string \<Rightarrow> string" where
  "landmarks_file_name output_dir_landmarks original_video_path timestamp output_format =
     path_join output_dir_landmarks
       (splitext_root (basename original_video_path) @ ''_'' @ timestamp @
        ''_landmarks.'' @ output_format)"

text \<open>
  \<^verbatim>\<open>save_landmarks_data\<close>, with the reading of the clock and the filesystem as arguments.
  The \<^verbatim>\<open>with open(...)\<close> block closes the file on an exception too, so the rows written
  before a \<^verbatim>\<open>KeyError\<close> stay in the file.
\<close>

definition save_landmarks_data ::
  "series \<Rightarrow> string \<Rightarrow> string \<Rightarrow> real \<Rightarrow> string \<Rightarrow> string \<Rightarrow> filesystem \<Rightarrow>
   (exn + string) \<times> filesystem" where
  "save_landmarks_data all_frames_data output_format original_video_path fps
       output_dir_landmarks timestamp fs =
     (let output_file_path =
            landmarks_file_name output_dir_landmarks original_video_path timestamp
              output_format
      in case makedirs output_dir_landmarks fs of
           Inl e \<Rightarrow> (Inl e, fs)
         | Inr fs1 \<Rightarrow>
             if output_format = ''json'' then
               (Inr output_file_path,
                write_file output_file_path
                  (JsonFile (formatted_data fps all_frames_data)) fs1)
             else if output_format = ''csv'' then
               (case csv_write all_frames_data of
                  (Some e, rows) \<Rightarrow>
                    (Inl e, write_file output_file_path (CsvFile rows) fs1)
                | (None, rows) \<Rightarrow>
                    (Inr output_file_path,
                     write_file output_file_path (CsvFile rows) fs1))
             else (Inr output_file_path, fs1))"

section \<open>save_visualized_video\<close>

definition video_file_name :: "string \<Rightarrow> string \<Rightarrow> string \<Rightarrow> string" where
  "video_file_name output_dir_visualized original_video_path timestamp =
     path_join output_dir_visualized
       (splitext_root (basename original_video_path) @ ''_'' @ timestamp @
        ''_landmarked.mp4'')"

text \<open>
  \<^verbatim>\<open>save_visualized_video\<close>. A \<^verbatim>\<open>cv2.VideoWriter\<close> made with a frame rate that is not
  positive does not open: \<^verbatim>\<open>out_video.write\<close> and \<^verbatim>\<open>out_video.release\<close> then do nothing,
  no file appears, and the function returns the path all the same. Neither call raises.
\<close>

definition save_visualized_video ::
  "annotated list \<Rightarrow> string \<Rightarrow> real \<Rightarrow> string \<Rightarrow> string \<Rightarrow> filesystem \<Rightarrow>
   (exn + string option) \<times> filesystem" where
  "save_visualized_video processed_frames original_video_path fps
       output_dir_visualized timestamp fs =
     (case processed_frames of
        [] \<Rightarrow> (Inr None, fs)
      | first # _ \<Rightarrow>
          (let height = img_height (base_frame first);
               width = img_width (base_frame first);
               output_video_path =
                 video_file_name output_dir_visualized original_video_path timestamp
           in case makedirs output_dir_visualized fs of
                Inl e \<Rightarrow> (Inl e, fs)
              | Inr fs1 \<Rightarrow>
                  (Inr (Some output_video_path),
                   if fps > 0
                   then write_file output_video_path
                          (VideoFile fps width height processed_frames) fs1
                   else fs1)))"

section \<open>process_video_and_update_ui\<close>

text \<open>
  The status messages, in the English of the source's own comments (the strings of the
  source are Japanese).
\<close>

definition msg_select_file :: string where
  "msg_select_file = ''Error: Please select a video file.''"

definition msg_analysis_failed :: string where
  "msg_analysis_failed =
     ''Error: Video analysis failed. Unsupported video format or corrupted file.''"

definition msg_empty_video :: string where
  "msg_empty_video =
     ''Warning: Could not process frames from the video. It might be empty or too short.''"

definition msg_save_failed :: string where
  "msg_save_failed = ''Error: Failed to save analysis results.''"

definition msg_success :: string where
  "msg_success = ''Processing completed successfully.''"

definition note_video_failed :: string where
  "note_video_failed = '' (Warning: Failed to save visualized video.)''"

definition note_landmarks_failed :: string where
  "note_landmarks_failed = '' (Warning: Failed to save landmark data.)''"

definition msg_unexpected :: "exn \<Rightarrow> string" where
  "msg_unexpected e = ''An unexpected error occurred: '' @ str_of_exn e"

definition default_dir_landmarks :: string where
  "default_dir_landmarks = ''output/landmarks_data/''"

definition default_dir_visualized :: string where
  "default_dir_visualized = ''output/visualized/''"

text \<open>Python's truth value of a path that is \<^verbatim>\<open>None\<close> or a string.\<close>

fun truthy :: "string option \<Rightarrow> bool" where
  "truthy None = False"
| "truthy (Some s) = (s \<noteq> [])"

text \<open>Step 4 (lines 242 to 253), on the two values the save functions returned.\<close>

definition report ::
  "string option \<Rightarrow> string \<Rightarrow> string option \<times> string option \<times> string" where
  "report visualized_video_path landmarks_file_path =
     (if \<not> truthy visualized_video_path \<and> landmarks_file_path = [] then
        (None, None, msg_save_failed)
      else
        (let m0 = msg_success;
             m1 = (if \<not> truthy visualized_video_path then m0 @ note_video_failed else m0);
             m2 = (if landmarks_file_path = [] then m1 @ note_landmarks_failed else m1)
         in (visualized_video_path, Some landmarks_file_path, m2)))"

definition idle :: resources where
  "idle = \<lparr>cap_held = False, pose_held = False\<rparr>"

text \<open>
  The entry point. It returns the triple for the UI, the filesystem after the run, and
  the resources \<^verbatim>\<open>analyze_video\<close> left behind. The \<^verbatim>\<open>try\<close> block covers lines 223 to
  253; every \<^verbatim>\<open>Inl\<close> below ends in its \<^verbatim>\<open>except Exception\<close> branch.
\<close>

definition process_video_and_update_ui ::
  "world \<Rightarrow> string option \<Rightarrow> string \<Rightarrow>
   (string option \<times> string option \<times> string) \<times> filesystem \<times> resources" where
  "process_video_and_update_ui w video_file_obj output_format_choice =
     (case video_file_obj of
        None \<Rightarrow> ((None, None, msg_select_file), disk w, idle)
      | Some video_path \<Rightarrow>
     (case analyze_video w video_path output_format_choice of
        (Inl e, res) \<Rightarrow> ((None, None, msg_unexpected e), disk w, res)
      | (Inr None, res) \<Rightarrow> ((None, None, msg_analysis_failed), disk w, res)
      | (Inr (Some (all_frames_data, processed_frames, fps)), res) \<Rightarrow>
          if processed_frames = [] then ((None, None, msg_empty_video), disk w, res)
          else
     (case save_landmarks_data all_frames_data output_format_choice video_path fps
             default_dir_landmarks (now_landmarks w) (disk w) of
        (Inl e, fs1) \<Rightarrow> ((None, None, msg_unexpected e), fs1, res)
      | (Inr landmarks_file_path, fs1) \<Rightarrow>
     (case save_visualized_video processed_frames video_path fps
             default_dir_visualized (now_video w) fs1 of
        (Inl e, fs2) \<Rightarrow> ((None, None, msg_unexpected e), fs2, res)
      | (Inr visualized_video_path, fs2) \<Rightarrow>
          (report visualized_video_path landmarks_file_path, fs2, res)))))"

section \<open>A concrete request\<close>

text \<open>
  Scenario A and C of the specification in one clip: frame 0 with two joints, frame 1 with
  nobody in it. Beside it an empty container and one whose first frame makes the detector
  raise.
\<close>

definition demo_image :: image where
  "demo_image = \<lparr>img_height = 2, img_width = 3, img_data = [0, 0, 0, 0, 0, 0]\<rparr>"

definition demo_joints :: "raw_landmark list" where
  "demo_joints =
     [\<lparr>lm_x = 1 / 10, lm_y = 2 / 10, lm_z = 3 / 10, lm_visibility = 99 / 100\<rparr>,
      \<lparr>lm_x = 2 / 10, lm_y = 3 / 10, lm_z = 4 / 10, lm_visibility = 98 / 100\<rparr>]"

definition demo_reads :: "read list" where
  "demo_reads = [ReadOk demo_image (PoseLandmarks demo_joints), ReadOk demo_image NoPose]"

definition demo_disk :: filesystem where
  "demo_disk = \<lparr>dirs = [], files = [], blocked = []\<rparr>"

definition demo_world :: world where
  "demo_world =
     \<lparr>videos =
        [(''clip.mp4'', 30, demo_reads),
         (''empty.mp4'', 30, []),
         (''broken.mp4'', 30, [ReadOk demo_image (Raises ''bad frame'')])],
      disk = demo_disk,
      now_landmarks = ''20240101_120000'',
      now_video = ''20240101_120001''\<rparr>"

text \<open>The same request on a disk where the landmark directory cannot be made.\<close>

definition blocked_world :: world where
  "blocked_world =
     demo_world\<lparr>disk := \<lparr>dirs = [], files = [], blocked = [''output/landmarks_data/'']\<rparr>\<rparr>"

definition demo_series :: series where
  "demo_series =
     [[[(''id'', PInt 0), (''x'', PFloat (1 / 10)), (''y'', PFloat (2 / 10)),
        (''z'', PFloat (3 / 10)), (''visibility'', PFloat (99 / 100))],
       [(''id'', PInt 1), (''x'', PFloat (2 / 10)), (''y'', PFloat (3 / 10)),
        (''z'', PFloat (4 / 10)), (''visibility'', PFloat (98 / 100))]],
      []]"

definition demo_frames :: "annotated list" where
  "demo_frames =
     [\<lparr>base_frame = demo_image, overlay = Some demo_joints\<rparr>,
      \<lparr>base_frame = demo_image, overlay = None\<rparr>]"

text \<open>A disk on which an older file already sits at the path the save will use.\<close>

definition stale_disk :: filesystem where
  "stale_disk =
     \<lparr>dirs = [''output/landmarks_data/''],
      files = [(''output/landmarks_data/clip_20240101_120000_landmarks.json'', CsvFile [])],
      blocked = []\<rparr>"

text \<open>The same request on a disk where the directory for the videos cannot be made.\<close>

definition video_blocked_world :: world where
  "video_blocked_world =
     demo_world\<lparr>disk := \<lparr>dirs = [], files = [], blocked = [''output/visualized/'']\<rparr>\<rparr>"

text \<open>The same clip in a container that reports the frame rate 0.\<close>

definition zero_fps_world :: world where
  "zero_fps_world = demo_world\<lparr>videos := [(''clip.mp4'', 0, demo_reads)]\<rparr>"

text \<open>A disk on which a file already sits at the path composed for the format \<^verbatim>\<open>xml\<close>.\<close>

definition stale_xml_disk :: filesystem where
  "stale_xml_disk =
     \<lparr>dirs = [''output/landmarks_data/''],
      files = [(''output/landmarks_data/clip_20240101_120000_landmarks.xml'', CsvFile [])],
      blocked = []\<rparr>"

section \<open>The extraction loop\<close>

lemmas demo_defs =
  demo_world_def demo_reads_def demo_image_def demo_joints_def demo_disk_def
  blocked_world_def demo_series_def demo_frames_def

text \<open>
  When no frame that is read makes the detector raise, the loop returns, having appended
  one entry to each list per frame read; otherwise the exception leaves the loop.
\<close>

lemma extract_loop_returns:
  "list_all (\<lambda>fd. \<not> is_raise (snd fd)) (frames_read reads) \<Longrightarrow>
   extract_loop reads acc_data acc_frames =
     Inr (acc_data @ map (\<lambda>fd. current_frame_landmarks (snd fd)) (frames_read reads),
          acc_frames @ map (\<lambda>fd. annotated_frame (fst fd) (snd fd)) (frames_read reads))"
  by (induction reads acc_data acc_frames rule: extract_loop.induct) simp_all

lemma extract_loop_raises:
  "\<not> list_all (\<lambda>fd. \<not> is_raise (snd fd)) (frames_read reads) \<Longrightarrow>
   \<exists>m. extract_loop reads acc_data acc_frames = Inl (DetectionError m)"
  by (induction reads acc_data acc_frames rule: extract_loop.induct) simp_all

lemma extract_loop_result:
  assumes "extract_loop reads [] [] = Inr (all_frames_data, processed_frames)"
  shows "all_frames_data = map (\<lambda>fd. current_frame_landmarks (snd fd)) (frames_read reads)"
    and "processed_frames = map (\<lambda>fd. annotated_frame (fst fd) (snd fd)) (frames_read reads)"
proof -
  have ok: "list_all (\<lambda>fd. \<not> is_raise (snd fd)) (frames_read reads)"
  proof (rule ccontr)
    assume "\<not> ?thesis"
    from extract_loop_raises [OF this, of "[]" "[]"] assms show False by auto
  qed
  from extract_loop_returns [OF ok, of "[]" "[]"] assms
  show "all_frames_data = map (\<lambda>fd. current_frame_landmarks (snd fd)) (frames_read reads)"
    and "processed_frames = map (\<lambda>fd. annotated_frame (fst fd) (snd fd)) (frames_read reads)"
    by simp_all
qed

lemma extract_loop_no_frames:
  "frames_read reads = [] \<Longrightarrow>
   extract_loop reads acc_data acc_frames = Inr (acc_data, acc_frames)"
  using extract_loop_returns [of reads acc_data acc_frames] by simp

lemma analyze_video_result:
  assumes "fst (analyze_video w video_path output_format) =
             Inr (Some (all_frames_data, processed_frames, fps))"
  shows "\<exists>reads. map_of (videos w) video_path = Some (fps, reads) \<and>
           extract_loop reads [] [] = Inr (all_frames_data, processed_frames)"
  using assms
  by (auto simp: analyze_video_def Let_def split: option.splits sum.splits prod.splits)

text \<open>
  C5. For a video that opens, \<^verbatim>\<open>analyze_video\<close> returns exactly when no frame it reads
  makes the detector raise, and then \<^verbatim>\<open>all_frames_data\<close> and \<^verbatim>\<open>processed_frames\<close> both
  have one entry per frame read, entry \<open>i\<close> being the landmarks and the annotated copy of
  frame \<open>i\<close>: no index is skipped. When the detector raises, no series is produced.
\<close>

theorem analyze_video_frame_alignment:
  assumes "map_of (videos w) video_path = Some (fps, reads)"
  shows "if list_all (\<lambda>fd. \<not> is_raise (snd fd)) (frames_read reads)
         then (\<exists>all_frames_data processed_frames.
                 fst (analyze_video w video_path output_format) =
                   Inr (Some (all_frames_data, processed_frames, fps)) \<and>
                 length all_frames_data = length (frames_read reads) \<and>
                 length processed_frames = length (frames_read reads) \<and>
                 (\<forall>i < length (frames_read reads).
                    all_frames_data ! i =
                      current_frame_landmarks (snd (frames_read reads ! i)) \<and>
                    processed_frames ! i =
                      annotated_frame (fst (frames_read reads ! i))
                        (snd (frames_read reads ! i))))
         else (\<exists>m. fst (analyze_video w video_path output_format) = Inl (DetectionError m))"
proof (cases "list_all (\<lambda>fd. \<not> is_raise (snd fd)) (frames_read reads)")
  case True
  from extract_loop_returns [OF True, of "[]" "[]"] assms True
  show ?thesis by (simp add: analyze_video_def)
next
  case False
  from extract_loop_raises [OF False, of "[]" "[]"] obtain m
    where "extract_loop reads [] [] = Inl (DetectionError m)" by blast
  with assms False show ?thesis by (simp add: analyze_video_def)
qed

theorem analyze_video_frame_alignment_witness:
  "map_of (videos demo_world) ''clip.mp4'' = Some (30, demo_reads) \<and>
   list_all (\<lambda>fd. \<not> is_raise (snd fd)) (frames_read demo_reads) \<and>
   length (frames_read demo_reads) = 2 \<and>
   fst (analyze_video demo_world ''clip.mp4'' ''json'') =
     Inr (Some (demo_series, demo_frames, 30))"
  using analyze_video_frame_alignment [of demo_world "''clip.mp4''" 30 demo_reads "''json''"]
  by (simp add: analyze_video_def demo_defs landmark_dict_def)

lemma ids_of_current_frame_landmarks:
  "map (\<lambda>lm. map_of lm ''id'') (current_frame_landmarks results) =
   map (\<lambda>j. Some (PInt (int j))) [0..<length (current_frame_landmarks results)]"
proof (cases results)
  case (PoseLandmarks ls)
  have "map (\<lambda>lm. map_of lm ''id'') (map (\<lambda>(j, l). landmark_dict j l) (enumerate n ls)) =
        map (\<lambda>j. Some (PInt (int j))) [n..<n + length ls]" for n
    by (induction ls arbitrary: n) (simp_all add: landmark_dict_def upt_rec)
  from this [of 0] PoseLandmarks show ?thesis by simp
qed simp_all

text \<open>
  C9. In every frame of a series that \<^verbatim>\<open>analyze_video\<close> returns, the \<^verbatim>\<open>'id'\<close> fields read
  in order are exactly 0, 1, ..., n - 1: the landmark at position \<open>j\<close> has id \<open>j\<close>.
\<close>

theorem landmark_ids_are_positions:
  assumes "fst (analyze_video w video_path output_format) =
             Inr (Some (all_frames_data, processed_frames, fps))"
      and "frame_landmarks \<in> set all_frames_data"
  shows "map (\<lambda>lm. map_of lm ''id'') frame_landmarks =
         map (\<lambda>j. Some (PInt (int j))) [0..<length frame_landmarks]"
proof -
  from analyze_video_result [OF assms(1)] obtain reads
    where "extract_loop reads [] [] = Inr (all_frames_data, processed_frames)" by blast
  from extract_loop_result(1) [OF this] assms(2)
  obtain fd where "frame_landmarks = current_frame_landmarks (snd fd)" by auto
  then show ?thesis by (simp only: ids_of_current_frame_landmarks)
qed

theorem landmark_ids_are_positions_witness:
  "fst (analyze_video demo_world ''clip.mp4'' ''json'') =
     Inr (Some (demo_series, demo_frames, 30)) \<and>
   hd demo_series \<in> set demo_series \<and>
   map (\<lambda>lm. map_of lm ''id'') (hd demo_series) = [Some (PInt 0), Some (PInt 1)]"
  using landmark_ids_are_positions
    [of demo_world "''clip.mp4''" "''json''" demo_series demo_frames 30 "hd demo_series"]
  by (simp add: analyze_video_def demo_defs landmark_dict_def)

section \<open>The resources of a run\<close>

text \<open>
  C4, as the code has it. For a video that opens, \<^verbatim>\<open>cap.release()\<close> and \<^verbatim>\<open>pose.close()\<close> run
  when the frame loop completes, and only then: if the detector raises on a frame, the
  exception leaves \<^verbatim>\<open>analyze_video\<close> with the capture handle and the detector both still
  held.
\<close>

theorem analyze_video_release_on_completion:
  assumes "map_of (videos w) video_path = Some (fps, reads)"
  shows "if list_all (\<lambda>fd. \<not> is_raise (snd fd)) (frames_read reads)
         then snd (analyze_video w video_path output_format) =
                \<lparr>cap_held = False, pose_held = False\<rparr>
         else snd (analyze_video w video_path output_format) =
                \<lparr>cap_held = True, pose_held = True\<rparr>"
proof (cases "list_all (\<lambda>fd. \<not> is_raise (snd fd)) (frames_read reads)")
  case True
  from extract_loop_returns [OF True, of "[]" "[]"] assms True
  show ?thesis by (simp add: analyze_video_def)
next
  case False
  from extract_loop_raises [OF False, of "[]" "[]"] obtain m
    where "extract_loop reads [] [] = Inl (DetectionError m)" by blast
  with assms False show ?thesis by (simp add: analyze_video_def)
qed

theorem analyze_video_release_on_completion_witness:
  "map_of (videos demo_world) ''clip.mp4'' = Some (30, demo_reads) \<and>
   list_all (\<lambda>fd. \<not> is_raise (snd fd)) (frames_read demo_reads) \<and>
   snd (analyze_video demo_world ''clip.mp4'' ''json'') =
     \<lparr>cap_held = False, pose_held = False\<rparr>"
  using analyze_video_release_on_completion
    [of demo_world "''clip.mp4''" 30 demo_reads "''json''"]
  by (simp add: demo_defs)

text \<open>
  C4 as the specification states it, release on every exit path, fails on a clip whose
  first frame makes the detector raise: the exception leaves \<^verbatim>\<open>analyze_video\<close> with the
  capture handle and the detector both held.
\<close>

theorem detector_raise_leaves_resources_open:
  "analyze_video demo_world ''broken.mp4'' ''json'' =
     (Inl (DetectionError ''bad frame''), \<lparr>cap_held = True, pose_held = True\<rparr>)"
  by (simp add: analyze_video_def demo_defs)

section \<open>Runs that end before the saving stage\<close>

text \<open>
  C6. When the video opens and no frame is read, the run returns \<^verbatim>\<open>(None, None, warning)\<close>
  with the empty-or-too-short message, and the filesystem is as it was: neither save
  function has run.
\<close>

theorem empty_video_reports_warning:
  assumes "map_of (videos w) video_path = Some (fps, reads)"
      and "frames_read reads = []"
  shows "process_video_and_update_ui w (Some video_path) output_format_choice =
           ((None, None, msg_empty_video), disk w, idle)"
  using assms extract_loop_no_frames [OF assms(2), of "[]" "[]"]
  by (simp add: process_video_and_update_ui_def analyze_video_def idle_def)

theorem empty_video_reports_warning_witness:
  "map_of (videos demo_world) ''empty.mp4'' = Some (30, []) \<and>
   frames_read [] = [] \<and>
   process_video_and_update_ui demo_world (Some ''empty.mp4'') ''csv'' =
     ((None, None, msg_empty_video), demo_disk, idle)"
  using empty_video_reports_warning [of demo_world "''empty.mp4''" 30 "[]" "''csv''"]
  by (simp add: demo_world_def)

text \<open>
  C7. When the container at the path cannot be opened, the run returns
  \<^verbatim>\<open>(None, None, error)\<close> with the message for a video that could not be analysed
  (unsupported format or corrupted file), and the filesystem is as it was.
\<close>

theorem unopenable_video_aborts:
  assumes "map_of (videos w) video_path = None"
  shows "fst (process_video_and_update_ui w (Some video_path) output_format_choice) =
           (None, None, msg_analysis_failed) \<and>
         fst (snd (process_video_and_update_ui w (Some video_path) output_format_choice)) =
           disk w"
  using assms by (simp add: process_video_and_update_ui_def analyze_video_def)

theorem unopenable_video_aborts_witness:
  "map_of (videos demo_world) ''missing.mp4'' = None \<and>
   fst (process_video_and_update_ui demo_world (Some ''missing.mp4'') ''json'') =
     (None, None, msg_analysis_failed) \<and>
   fst (snd (process_video_and_update_ui demo_world (Some ''missing.mp4'') ''json'')) =
     demo_disk"
  using unopenable_video_aborts [of demo_world "''missing.mp4''" "''json''"]
  by (simp add: demo_world_def)

section \<open>Saving the landmark data\<close>

lemma map_of_write_file:
  "map_of (files (write_file path c fs)) path = Some c"
  by (simp add: write_file_def)

text \<open>
  C10, as the code has it. For an \<^verbatim>\<open>output_format\<close> that is neither \<^verbatim>\<open>"json"\<close> nor
  \<^verbatim>\<open>"csv"\<close>, and a directory that \<^verbatim>\<open>os.makedirs\<close> accepts, \<^verbatim>\<open>save_landmarks_data\<close> returns
  the composed path and makes the directory, and leaves the files as they were: nothing
  is created or written at the returned path, so after the call it names a file exactly
  when it named one before the call.
\<close>

theorem unknown_format_writes_no_file:
  assumes "output_format \<noteq> ''json''" and "output_format \<noteq> ''csv''"
      and "output_dir \<notin> set (blocked fs)"
  shows "fst (save_landmarks_data all_frames_data output_format original_video_path fps
                output_dir timestamp fs) =
           Inr (landmarks_file_name output_dir original_video_path timestamp output_format) \<and>
         output_dir \<in> set (dirs (snd (save_landmarks_data all_frames_data output_format
                original_video_path fps output_dir timestamp fs))) \<and>
         files (snd (save_landmarks_data all_frames_data output_format
                original_video_path fps output_dir timestamp fs)) = files fs \<and>
         (map_of (files (snd (save_landmarks_data all_frames_data output_format
                original_video_path fps output_dir timestamp fs)))
            (landmarks_file_name output_dir original_video_path timestamp output_format) =
          None) =
         (map_of (files fs)
            (landmarks_file_name output_dir original_video_path timestamp output_format) =
          None)"
  using assms by (simp add: save_landmarks_data_def makedirs_def Let_def)

theorem unknown_format_writes_no_file_witness:
  "''xml'' \<noteq> ''json'' \<and> ''xml'' \<noteq> ''csv'' \<and>
   default_dir_landmarks \<notin> set (blocked demo_disk) \<and>
   save_landmarks_data demo_series ''xml'' ''clip.mp4'' 30 default_dir_landmarks
     ''20240101_120000'' demo_disk =
   (Inr ''output/landmarks_data/clip_20240101_120000_landmarks.xml'',
    \<lparr>dirs = [''output/landmarks_data/''], files = [], blocked = []\<rparr>) \<and>
   map_of (files demo_disk) ''output/landmarks_data/clip_20240101_120000_landmarks.xml'' =
     None"
  using unknown_format_writes_no_file
    [of "''xml''" default_dir_landmarks demo_disk demo_series "''clip.mp4''" 30
        "''20240101_120000''"]
  by (simp add: demo_disk_def default_dir_landmarks_def landmarks_file_name_def
      path_join_def splitext_root_def basename_def save_landmarks_data_def makedirs_def)

text \<open>
  C10 as the specification states it, the returned path refers to a file that does not
  exist, fails on a disk where a file already sits at the composed path: the call
  returns that path, changes nothing, and the path names the older file.
\<close>

theorem unknown_format_path_names_older_file:
  "save_landmarks_data demo_series ''xml'' ''clip.mp4'' 30 default_dir_landmarks
     ''20240101_120000'' stale_xml_disk =
   (Inr ''output/landmarks_data/clip_20240101_120000_landmarks.xml'', stale_xml_disk) \<and>
   map_of (files stale_xml_disk)
     ''output/landmarks_data/clip_20240101_120000_landmarks.xml'' = Some (CsvFile [])"
  by (simp add: stale_xml_disk_def default_dir_landmarks_def landmarks_file_name_def
      path_join_def splitext_root_def basename_def save_landmarks_data_def makedirs_def)

text \<open>
  C3. In \<^verbatim>\<open>json\<close> format the document handed to \<^verbatim>\<open>json.dump\<close> is an object with exactly
  the keys \<^verbatim>\<open>fps\<close> and \<^verbatim>\<open>frames\<close>; \<^verbatim>\<open>frames\<close> has one element per frame of the series;
  element \<open>i\<close> has the timestamp \<open>i / fps\<close> when \<open>fps > 0\<close> and 0 otherwise, and under
  \<^verbatim>\<open>poseLandmarks\<close> the landmark dicts of frame \<open>i\<close> as they are, an empty array for a
  frame without detection. (A landmark made by \<^verbatim>\<open>analyze_video\<close> is a dict with the keys
  \<^verbatim>\<open>id\<close>, \<^verbatim>\<open>x\<close>, \<^verbatim>\<open>y\<close>, \<^verbatim>\<open>z\<close>, \<^verbatim>\<open>visibility\<close>, see \<open>landmark_dict\<close>.)
\<close>

theorem json_document_shape:
  assumes "output_dir \<notin> set (blocked fs)"
  shows "\<exists>frames.
           fst (save_landmarks_data all_frames_data ''json'' original_video_path fps
                  output_dir timestamp fs) =
             Inr (landmarks_file_name output_dir original_video_path timestamp ''json'') \<and>
           map_of (files (snd (save_landmarks_data all_frames_data ''json''
                  original_video_path fps output_dir timestamp fs)))
               (landmarks_file_name output_dir original_video_path timestamp ''json'') =
             Some (JsonFile (PDict [(''fps'', PFloat fps), (''frames'', PList frames)])) \<and>
           length frames = length all_frames_data \<and>
           (\<forall>i < length all_frames_data.
              frames ! i =
                PDict [(''timestamp'', if fps > 0 then PFloat (real i / fps) else PInt 0),
                       (''poseLandmarks'', PList (map PDict (all_frames_data ! i)))])"
proof (intro exI conjI)
  let ?frames = "map (json_frame fps) (enumerate 0 all_frames_data)"
  let ?run = "save_landmarks_data all_frames_data ''json'' original_video_path fps
                output_dir timestamp fs"
  let ?path = "landmarks_file_name output_dir original_video_path timestamp ''json''"
  show "fst ?run = Inr ?path"
    using assms by (simp add: save_landmarks_data_def makedirs_def Let_def)
  show "map_of (files (snd ?run)) ?path =
          Some (JsonFile (PDict [(''fps'', PFloat fps), (''frames'', PList ?frames)]))"
    using assms
    by (simp add: save_landmarks_data_def makedirs_def map_of_write_file formatted_data_def
        Let_def)
  show "length ?frames = length all_frames_data" by simp
  show "\<forall>i < length all_frames_data.
          ?frames ! i =
            PDict [(''timestamp'', if fps > 0 then PFloat (real i / fps) else PInt 0),
                   (''poseLandmarks'', PList (map PDict (all_frames_data ! i)))]"
    by (simp add: json_frame_def nth_enumerate_eq)
qed

theorem json_document_shape_witness:
  "default_dir_landmarks \<notin> set (blocked demo_disk) \<and>
   map_of (files (snd (save_landmarks_data demo_series ''json'' ''clip.mp4'' 30
       default_dir_landmarks ''20240101_120000'' demo_disk)))
     ''output/landmarks_data/clip_20240101_120000_landmarks.json'' =
   Some (JsonFile (PDict
     [(''fps'', PFloat 30),
      (''frames'', PList
         [PDict [(''timestamp'', PFloat 0),
                 (''poseLandmarks'', PList
                    [PDict [(''id'', PInt 0), (''x'', PFloat (1 / 10)), (''y'', PFloat (2 / 10)),
                            (''z'', PFloat (3 / 10)), (''visibility'', PFloat (99 / 100))],
                     PDict [(''id'', PInt 1), (''x'', PFloat (2 / 10)), (''y'', PFloat (3 / 10)),
                            (''z'', PFloat (4 / 10)), (''visibility'', PFloat (98 / 100))]])],
          PDict [(''timestamp'', PFloat (1 / 30)), (''poseLandmarks'', PList [])]])]))"
  using json_document_shape
    [of default_dir_landmarks demo_disk demo_series "''clip.mp4''" 30 "''20240101_120000''"]
  by (simp add: demo_disk_def demo_series_def default_dir_landmarks_def
      landmarks_file_name_def path_join_def splitext_root_def basename_def
      save_landmarks_data_def makedirs_def write_file_def formatted_data_def json_frame_def
      Let_def)

text \<open>
  C8. The contents written are a function of the series, the frame rate and the format
  alone. Two invocations in either format on the same series, frame rate and timestamp
  leave the same contents at the paths they compose, whatever the name of the video, the
  output directory and the filesystem they start from, an older file at the same path
  included. Contents are the value given to \<^verbatim>\<open>json.dump\<close> and the rows given to
  \<^verbatim>\<open>csv.writer\<close>, of which the bytes in the file are a function.
\<close>

theorem landmark_file_contents_deterministic:
  assumes "output_format = ''json'' \<or> output_format = ''csv''"
      and "dir1 \<notin> set (blocked fs1)" and "dir2 \<notin> set (blocked fs2)"
  shows "map_of (files (snd (save_landmarks_data all_frames_data output_format path1 fps
                               dir1 timestamp fs1)))
           (landmarks_file_name dir1 path1 timestamp output_format) =
         map_of (files (snd (save_landmarks_data all_frames_data output_format path2 fps
                               dir2 timestamp fs2)))
           (landmarks_file_name dir2 path2 timestamp output_format) \<and>
         map_of (files (snd (save_landmarks_data all_frames_data output_format path1 fps
                               dir1 timestamp fs1)))
           (landmarks_file_name dir1 path1 timestamp output_format) \<noteq> None"
  using assms
  by (auto simp: save_landmarks_data_def makedirs_def map_of_write_file Let_def
           split: prod.splits option.splits)

theorem landmark_file_contents_deterministic_witness:
  "(''json'' = ''json'' \<or> ''json'' = ''csv'') \<and>
   default_dir_landmarks \<notin> set (blocked demo_disk) \<and>
   default_dir_landmarks \<notin> set (blocked stale_disk) \<and>
   map_of (files (snd (save_landmarks_data demo_series ''json'' ''clip.mp4'' 30
       default_dir_landmarks ''20240101_120000'' demo_disk)))
     (landmarks_file_name default_dir_landmarks ''clip.mp4'' ''20240101_120000'' ''json'') =
   map_of (files (snd (save_landmarks_data demo_series ''json'' ''clip.mp4'' 30
       default_dir_landmarks ''20240101_120000'' stale_disk)))
     (landmarks_file_name default_dir_landmarks ''clip.mp4'' ''20240101_120000'' ''json'') \<and>
   map_of (files stale_disk)
     (landmarks_file_name default_dir_landmarks ''clip.mp4'' ''20240101_120000'' ''json'') =
   Some (CsvFile [])"
  using landmark_file_contents_deterministic
    [of "''json''" default_dir_landmarks demo_disk default_dir_landmarks stale_disk
        demo_series "''clip.mp4''" 30 "''20240101_120000''" "''clip.mp4''"]
  by (simp add: demo_disk_def stale_disk_def default_dir_landmarks_def
      landmarks_file_name_def path_join_def splitext_root_def basename_def
      save_landmarks_data_def makedirs_def write_file_def Let_def)

section \<open>The saving stage of a run\<close>

lemma path_join_nonempty: "b \<noteq> [] \<Longrightarrow> path_join a b \<noteq> []"
  by (simp add: path_join_def)

lemma landmarks_file_name_nonempty:
  "landmarks_file_name output_dir original_video_path timestamp output_format \<noteq> []"
  by (simp add: landmarks_file_name_def path_join_nonempty)

lemma video_file_name_nonempty:
  "video_file_name output_dir original_video_path timestamp \<noteq> []"
  by (simp add: video_file_name_def path_join_nonempty)

text \<open>
  The two default directories keep the two outputs apart: the name composed for the
  landmark file is never the name composed for the video.
\<close>

lemma basename_no_separator: "CHR ''/'' \<notin> set (basename p)"
  by (auto simp: basename_def dest: set_takeWhileD)

lemma splitext_root_no_separator:
  "CHR ''/'' \<notin> set q \<Longrightarrow> CHR ''/'' \<notin> set (splitext_root q)"
  by (auto simp: splitext_root_def Let_def dest: in_set_takeD)

lemma path_join_under_directory:
  assumes "CHR ''/'' \<notin> set stem"
  shows "path_join (d @ ''/'') (stem @ ''_'' @ rest) = d @ ''/'' @ stem @ ''_'' @ rest"
  using assms by (cases stem) (auto simp: path_join_def)

lemma landmarks_file_name_default:
  "landmarks_file_name default_dir_landmarks p ts fmt =
     ''output/landmarks_data/'' @ splitext_root (basename p) @ ''_'' @ ts @
     ''_landmarks.'' @ fmt"
  using path_join_under_directory
    [OF splitext_root_no_separator [OF basename_no_separator [of p]],
     of "''output/landmarks_data''" "ts @ ''_landmarks.'' @ fmt"]
  by (simp add: landmarks_file_name_def default_dir_landmarks_def)

lemma video_file_name_default:
  "video_file_name default_dir_visualized p ts =
     ''output/visualized/'' @ splitext_root (basename p) @ ''_'' @ ts @ ''_landmarked.mp4''"
  using path_join_under_directory
    [OF splitext_root_no_separator [OF basename_no_separator [of p]],
     of "''output/visualized''" "ts @ ''_landmarked.mp4''"]
  by (simp add: video_file_name_def default_dir_visualized_def)

lemma output_paths_differ:
  "landmarks_file_name default_dir_landmarks p ts fmt \<noteq>
   video_file_name default_dir_visualized p' ts'"
  by (simp add: landmarks_file_name_default video_file_name_default)

lemma map_of_filter_other:
  "q \<noteq> path \<Longrightarrow> map_of (filter (\<lambda>entry. fst entry \<noteq> path) xs) q = map_of xs q"
  by (induction xs) auto

lemma map_of_write_file_other:
  "q \<noteq> path \<Longrightarrow> map_of (files (write_file path c fs)) q = map_of (files fs) q"
  by (simp add: write_file_def map_of_filter_other)

text \<open>What each save function leaves on the disk.\<close>

lemma save_landmarks_data_returns_path:
  assumes "save_landmarks_data all_frames_data output_format original_video_path fps
             output_dir timestamp fs = (Inr landmarks_file_path, fs1)"
  shows "landmarks_file_path =
           landmarks_file_name output_dir original_video_path timestamp output_format"
  using assms
  by (auto simp: save_landmarks_data_def Let_def
           split: sum.splits if_splits prod.splits option.splits)

lemma save_landmarks_data_written:
  assumes "save_landmarks_data all_frames_data output_format original_video_path fps
             output_dir timestamp fs = (Inr landmarks_file_path, fs1)"
  shows "map_of (files fs1)
           (landmarks_file_name output_dir original_video_path timestamp output_format) =
         (if output_format = ''json''
          then Some (JsonFile (formatted_data fps all_frames_data))
          else if output_format = ''csv''
          then Some (CsvFile (snd (csv_write all_frames_data)))
          else map_of (files fs)
                 (landmarks_file_name output_dir original_video_path timestamp
                    output_format))"
  using assms
  by (auto simp: save_landmarks_data_def makedirs_def Let_def map_of_write_file
           split: sum.splits if_splits prod.splits option.splits)

lemma save_landmarks_data_elsewhere:
  assumes "q \<noteq> landmarks_file_name output_dir original_video_path timestamp output_format"
  shows "map_of (files (snd (save_landmarks_data all_frames_data output_format
           original_video_path fps output_dir timestamp fs))) q = map_of (files fs) q"
  using assms
  by (auto simp: save_landmarks_data_def makedirs_def Let_def map_of_write_file_other
           split: sum.splits prod.splits option.splits)

lemma save_landmarks_data_other_dirs:
  assumes "d \<noteq> output_dir"
  shows "(d \<in> set (dirs (snd (save_landmarks_data all_frames_data output_format
           original_video_path fps output_dir timestamp fs)))) = (d \<in> set (dirs fs))"
  using assms
  by (auto simp: save_landmarks_data_def makedirs_def Let_def write_file_def
           split: sum.splits prod.splits option.splits)

lemma save_visualized_video_returns_path:
  assumes "save_visualized_video processed_frames original_video_path fps
             output_dir timestamp fs = (Inr visualized_video_path, fs2)"
      and "processed_frames \<noteq> []"
  shows "visualized_video_path =
           Some (video_file_name output_dir original_video_path timestamp)"
  using assms
  by (auto simp: save_visualized_video_def Let_def split: list.splits sum.splits)

lemma save_visualized_video_raises:
  assumes "save_visualized_video processed_frames original_video_path fps
             output_dir timestamp fs = (Inl e, fs2)"
  shows "fs2 = fs"
  using assms
  by (auto simp: save_visualized_video_def Let_def split: list.splits sum.splits)

lemma save_visualized_video_written:
  assumes "save_visualized_video processed_frames original_video_path fps
             output_dir timestamp fs = (Inr visualized_video_path, fs2)"
      and "processed_frames \<noteq> []"
  shows "map_of (files fs2) (video_file_name output_dir original_video_path timestamp) =
         (if fps > 0
          then Some (VideoFile fps (img_width (base_frame (hd processed_frames)))
                       (img_height (base_frame (hd processed_frames))) processed_frames)
          else map_of (files fs)
                 (video_file_name output_dir original_video_path timestamp))"
  using assms
  by (auto simp: save_visualized_video_def makedirs_def Let_def map_of_write_file
           split: list.splits sum.splits if_splits)

lemma save_visualized_video_elsewhere:
  assumes "q \<noteq> video_file_name output_dir original_video_path timestamp"
  shows "map_of (files (snd (save_visualized_video processed_frames original_video_path
           fps output_dir timestamp fs))) q = map_of (files fs) q"
  using assms
  by (auto simp: save_visualized_video_def makedirs_def Let_def map_of_write_file_other
           split: list.splits sum.splits)

lemma report_both_saved:
  "truthy visualized_video_path \<Longrightarrow> landmarks_file_path \<noteq> [] \<Longrightarrow>
   report visualized_video_path landmarks_file_path =
     (visualized_video_path, Some landmarks_file_path, msg_success)"
  by (simp add: report_def)

text \<open>
  C2, as the code has it. In a run that reaches the saving stage the landmark-data save
  runs first and the video save only if the first returned. An exception in either ends
  the run with \<^verbatim>\<open>(None, None, unexpected-error message)\<close>. After a raise in the landmark
  save the video save has not run: the disk is the one the landmark save left, with the
  video path and the video directory as they were before the run. After a raise in the
  video save the disk is still the one the landmark save left: the landmark file it
  wrote (in \<^verbatim>\<open>json\<close> or \<^verbatim>\<open>csv\<close> format; no other format writes one) is at its path with
  the contents written, its path is not returned, and the video path is as it was. When
  both return, both paths come back with the plain success message, the landmark file is
  at its path, and the video file is at its path when the frame rate is positive.
\<close>

theorem save_stage_outcomes:
  fixes w :: world and video_path output_format_choice :: string
  defines "ui \<equiv> fst (process_video_and_update_ui w (Some video_path) output_format_choice)"
      and "after \<equiv>
             fst (snd (process_video_and_update_ui w (Some video_path) output_format_choice))"
      and "lpath \<equiv>
             landmarks_file_name default_dir_landmarks video_path (now_landmarks w)
               output_format_choice"
      and "vpath \<equiv> video_file_name default_dir_visualized video_path (now_video w)"
  assumes "fst (analyze_video w video_path output_format_choice) =
             Inr (Some (all_frames_data, processed_frames, fps))"
      and "processed_frames \<noteq> []"
  shows "case save_landmarks_data all_frames_data output_format_choice video_path fps
                default_dir_landmarks (now_landmarks w) (disk w) of
           (Inl e, fs1) \<Rightarrow>
             ui = (None, None, msg_unexpected e) \<and>
             after = fs1 \<and>
             map_of (files after) vpath = map_of (files (disk w)) vpath \<and>
             (default_dir_visualized \<in> set (dirs after)) =
               (default_dir_visualized \<in> set (dirs (disk w)))
         | (Inr landmarks_file_path, fs1) \<Rightarrow>
             landmarks_file_path = lpath \<and>
             landmarks_file_path \<noteq> [] \<and>
             map_of (files after) lpath =
               (if output_format_choice = ''json''
                then Some (JsonFile (formatted_data fps all_frames_data))
                else if output_format_choice = ''csv''
                then Some (CsvFile (snd (csv_write all_frames_data)))
                else map_of (files (disk w)) lpath) \<and>
             (case save_visualized_video processed_frames video_path fps
                     default_dir_visualized (now_video w) fs1 of
                (Inl e, fs2) \<Rightarrow>
                  ui = (None, None, msg_unexpected e) \<and>
                  after = fs1 \<and>
                  fs2 = fs1 \<and>
                  map_of (files after) vpath = map_of (files (disk w)) vpath
              | (Inr visualized_video_path, fs2) \<Rightarrow>
                  ui = (visualized_video_path, Some landmarks_file_path, msg_success) \<and>
                  visualized_video_path = Some vpath \<and>
                  truthy visualized_video_path \<and>
                  after = fs2 \<and>
                  map_of (files after) vpath =
                    (if fps > 0
                     then Some (VideoFile fps
                                  (img_width (base_frame (hd processed_frames)))
                                  (img_height (base_frame (hd processed_frames)))
                                  processed_frames)
                     else map_of (files (disk w)) vpath))"
proof -
  let ?L = "save_landmarks_data all_frames_data output_format_choice video_path fps
              default_dir_landmarks (now_landmarks w) (disk w)"
  have differ: "vpath \<noteq> lpath" "lpath \<noteq> vpath"
    using output_paths_differ [of video_path "now_landmarks w" output_format_choice
        video_path "now_video w"]
    by (auto simp: lpath_def vpath_def)
  have dirs_differ: "default_dir_visualized \<noteq> default_dir_landmarks"
    by (simp add: default_dir_visualized_def default_dir_landmarks_def)
  obtain res where av: "analyze_video w video_path output_format_choice =
      (Inr (Some (all_frames_data, processed_frames, fps)), res)"
    using assms(5) by (cases "analyze_video w video_path output_format_choice") simp
  obtain r1 fs1 where L: "?L = (r1, fs1)" by (cases ?L)
  have v_after_L: "map_of (files fs1) vpath = map_of (files (disk w)) vpath"
    using save_landmarks_data_elsewhere [of vpath default_dir_landmarks video_path
        "now_landmarks w" output_format_choice all_frames_data fps "disk w"]
      differ(1) L
    by (simp add: lpath_def)
  have d_after_L: "(default_dir_visualized \<in> set (dirs fs1)) =
      (default_dir_visualized \<in> set (dirs (disk w)))"
    using save_landmarks_data_other_dirs [OF dirs_differ, of all_frames_data
        output_format_choice video_path fps "now_landmarks w" "disk w"] L
    by simp
  show ?thesis
  proof (cases r1)
    case (Inl e)
    with av L assms(6) v_after_L d_after_L show ?thesis
      by (simp add: process_video_and_update_ui_def ui_def after_def)
  next
    case (Inr lp)
    note L' = L [unfolded Inr]
    from save_landmarks_data_returns_path [OF L']
    have lp: "lp = lpath" by (simp add: lpath_def)
    have lp_nonempty: "lp \<noteq> []"
      unfolding lp lpath_def by (rule landmarks_file_name_nonempty)
    have l_after_L: "map_of (files fs1) lpath =
        (if output_format_choice = ''json''
         then Some (JsonFile (formatted_data fps all_frames_data))
         else if output_format_choice = ''csv''
         then Some (CsvFile (snd (csv_write all_frames_data)))
         else map_of (files (disk w)) lpath)"
      using save_landmarks_data_written [OF L'] by (simp add: lpath_def)
    let ?V = "save_visualized_video processed_frames video_path fps
                default_dir_visualized (now_video w) fs1"
    obtain r2 fs2 where V: "?V = (r2, fs2)" by (cases ?V)
    show ?thesis
    proof (cases r2)
      case (Inl e)
      from save_visualized_video_raises [OF V [unfolded Inl]] have "fs2 = fs1" .
      with av L Inr V Inl assms(6) lp lp_nonempty l_after_L v_after_L show ?thesis
        by (simp add: process_video_and_update_ui_def ui_def after_def)
    next
      case vp: (Inr vp)
      note V' = V [unfolded vp]
      from save_visualized_video_returns_path [OF V' assms(6)]
      have vp_eq: "vp = Some vpath" by (simp add: vpath_def)
      then have vp_truthy: "truthy vp"
        by (simp add: vpath_def video_file_name_nonempty)
      have l_after_V: "map_of (files fs2) lpath = map_of (files fs1) lpath"
        using save_visualized_video_elsewhere [of lpath default_dir_visualized video_path
            "now_video w" processed_frames fps fs1] differ(2) V
        by (simp add: vpath_def)
      have v_after_V: "map_of (files fs2) vpath =
          (if fps > 0
           then Some (VideoFile fps (img_width (base_frame (hd processed_frames)))
                        (img_height (base_frame (hd processed_frames))) processed_frames)
           else map_of (files (disk w)) vpath)"
        using save_visualized_video_written [OF V' assms(6)] v_after_L
        by (simp add: vpath_def)
      from av L Inr V vp assms(6) lp lp_nonempty vp_eq vp_truthy l_after_L l_after_V
        v_after_V
      show ?thesis
        by (simp add: process_video_and_update_ui_def ui_def after_def report_both_saved)
    qed
  qed
qed

theorem save_stage_outcomes_witness:
  "fst (analyze_video demo_world ''clip.mp4'' ''json'') =
     Inr (Some (demo_series, demo_frames, 30)) \<and>
   fst (analyze_video video_blocked_world ''clip.mp4'' ''json'') =
     Inr (Some (demo_series, demo_frames, 30)) \<and>
   demo_frames \<noteq> [] \<and>
   fst (process_video_and_update_ui demo_world (Some ''clip.mp4'') ''json'') =
     (Some ''output/visualized/clip_20240101_120001_landmarked.mp4'',
      Some ''output/landmarks_data/clip_20240101_120000_landmarks.json'',
      msg_success) \<and>
   fst (process_video_and_update_ui video_blocked_world (Some ''clip.mp4'') ''json'') =
     (None, None, msg_unexpected (OSError ''output/visualized/'')) \<and>
   map_of (files (fst (snd (process_video_and_update_ui video_blocked_world
       (Some ''clip.mp4'') ''json''))))
     ''output/landmarks_data/clip_20240101_120000_landmarks.json'' =
     Some (JsonFile (formatted_data 30 demo_series)) \<and>
   map_of (files (fst (snd (process_video_and_update_ui video_blocked_world
       (Some ''clip.mp4'') ''json''))))
     ''output/visualized/clip_20240101_120001_landmarked.mp4'' = None"
  using save_stage_outcomes
    [where w = demo_world and video_path = "''clip.mp4''"
       and output_format_choice = "''json''" and all_frames_data = demo_series
       and processed_frames = demo_frames and fps = 30]
    save_stage_outcomes
    [where w = video_blocked_world and video_path = "''clip.mp4''"
       and output_format_choice = "''json''" and all_frames_data = demo_series
       and processed_frames = demo_frames and fps = 30]
  by (simp add: analyze_video_def demo_defs video_blocked_world_def landmark_dict_def
      process_video_and_update_ui_def save_landmarks_data_def save_visualized_video_def
      makedirs_def write_file_def default_dir_landmarks_def default_dir_visualized_def
      landmarks_file_name_def video_file_name_def path_join_def splitext_root_def
      basename_def report_def Let_def)

text \<open>
  At the frame rate 0 the run succeeds with both paths, and only the landmark file is on
  the disk: the video writer never opened.
\<close>

lemma run_at_zero_fps:
  "process_video_and_update_ui zero_fps_world (Some ''clip.mp4'') ''json'' =
     ((Some ''output/visualized/clip_20240101_120001_landmarked.mp4'',
       Some ''output/landmarks_data/clip_20240101_120000_landmarks.json'',
       msg_success),
      \<lparr>dirs = [''output/visualized/'', ''output/landmarks_data/''],
       files = [(''output/landmarks_data/clip_20240101_120000_landmarks.json'',
                 JsonFile (formatted_data 0 demo_series))],
       blocked = []\<rparr>,
      idle)"
  by (simp add: analyze_video_def zero_fps_world_def demo_defs landmark_dict_def
      process_video_and_update_ui_def save_landmarks_data_def save_visualized_video_def
      makedirs_def write_file_def default_dir_landmarks_def default_dir_visualized_def
      landmarks_file_name_def video_file_name_def path_join_def splitext_root_def
      basename_def report_def idle_def Let_def)

text \<open>
  C2 as the specification states it, each save attempted whatever the other does, fails
  when the landmark directory cannot be made: the video save, which would have succeeded
  on that disk, is never run, no file is written, and the status is the unexpected-error
  message, not a success message with a note.
\<close>

theorem landmark_save_failure_skips_video_save:
  "process_video_and_update_ui blocked_world (Some ''clip.mp4'') ''json'' =
     ((None, None, msg_unexpected (OSError ''output/landmarks_data/'')),
      disk blocked_world, idle) \<and>
   files (disk blocked_world) = [] \<and>
   fst (save_visualized_video demo_frames ''clip.mp4'' 30 default_dir_visualized
          (now_video blocked_world) (disk blocked_world)) =
     Inr (Some ''output/visualized/clip_20240101_120001_landmarked.mp4'')"
  by (simp add: analyze_video_def demo_defs landmark_dict_def
      process_video_and_update_ui_def save_landmarks_data_def save_visualized_video_def
      makedirs_def write_file_def default_dir_landmarks_def default_dir_visualized_def
      landmarks_file_name_def video_file_name_def path_join_def splitext_root_def
      basename_def idle_def Let_def)

section \<open>The csv encoder on extracted landmarks\<close>

lemma csv_landmark_row_of_landmark_dict:
  "csv_landmark_row frame_idx (landmark_dict j l) = Inl (KeyError ''landmark_id'')"
  by (simp add: csv_landmark_row_def landmark_dict_def)

lemma csv_write_landmarks_extracted:
  "current_frame_landmarks results \<noteq> [] \<Longrightarrow>
   csv_write_landmarks frame_idx (current_frame_landmarks results) rows =
     (Some (KeyError ''landmark_id''), rows)"
  by (cases results; cases "current_frame_landmarks results")
     (auto simp: csv_landmark_row_of_landmark_dict split: list.splits)

lemma csv_write_frames_extracted:
  "list_ex (\<lambda>f. f \<noteq> []) (map current_frame_landmarks detections) \<Longrightarrow>
   fst (csv_write_frames (enumerate n (map current_frame_landmarks detections)) rows) =
     Some (KeyError ''landmark_id'')"
proof (induction detections arbitrary: n rows)
  case Nil
  then show ?case by simp
next
  case (Cons results rest)
  show ?case
  proof (cases "current_frame_landmarks results = []")
    case True
    with Cons show ?thesis by simp
  next
    case False
    then show ?thesis by (simp add: csv_write_landmarks_extracted)
  qed
qed

text \<open>
  The same happens on every series \<^verbatim>\<open>analyze_video\<close> returns in which some frame has a
  landmark: the first such frame raises, after the header and the sentinel rows of the
  empty frames before it.
\<close>

lemma csv_save_of_extracted_series_raises:
  assumes "fst (analyze_video w video_path output_format) =
             Inr (Some (all_frames_data, processed_frames, fps))"
      and "list_ex (\<lambda>f. f \<noteq> []) all_frames_data"
      and "output_dir \<notin> set (blocked fs)"
  shows "fst (save_landmarks_data all_frames_data ''csv'' video_path fps output_dir
                timestamp fs) = Inl (KeyError ''landmark_id'')"
proof -
  from analyze_video_result [OF assms(1)] obtain reads
    where "extract_loop reads [] [] = Inr (all_frames_data, processed_frames)" by blast
  from extract_loop_result(1) [OF this]
  have shape: "all_frames_data = map current_frame_landmarks (map snd (frames_read reads))"
    by simp
  from assms(2) have nonempty: "all_frames_data \<noteq> []" by auto
  from csv_write_frames_extracted [of "map snd (frames_read reads)" 0 "[csv_header]"]
    assms(2) shape nonempty
  have "fst (csv_write all_frames_data) = Some (KeyError ''landmark_id'')"
    by (simp add: csv_write_def)
  with assms(3) show ?thesis
    by (auto simp: save_landmarks_data_def makedirs_def Let_def split: prod.splits)
qed

text \<open>
  C1. The csv encoder reads \<^verbatim>\<open>landmark['landmark_id']\<close>, while \<^verbatim>\<open>analyze_video\<close> stores the
  index under \<^verbatim>\<open>'id'\<close>. On the clip with two joints in frame 0 and none in frame 1 the
  run in csv format writes the header, raises \<^verbatim>\<open>KeyError\<close> at the first landmark, and
  returns the unexpected-error message; the file holds the header and no data row.
\<close>

theorem csv_run_on_extracted_landmarks_raises:
  "process_video_and_update_ui demo_world (Some ''clip.mp4'') ''csv'' =
     ((None, None, msg_unexpected (KeyError ''landmark_id'')),
      \<lparr>dirs = [''output/landmarks_data/''],
       files = [(''output/landmarks_data/clip_20240101_120000_landmarks.csv'',
                 CsvFile [csv_header])],
       blocked = []\<rparr>,
      idle)"
  by (simp add: analyze_video_def demo_defs landmark_dict_def
      process_video_and_update_ui_def save_landmarks_data_def
      makedirs_def write_file_def default_dir_landmarks_def
      landmarks_file_name_def path_join_def splitext_root_def
      basename_def idle_def Let_def csv_write_def csv_landmark_row_def)

end
